theory Spec2Isabelle
  imports Complex_Main
begin

section \<open>Python values, exceptions and strings\<close>

text \<open>
  The depth streamer is written in Python.  Values that arrive in JSON payloads are
  modelled for the two types the dataclass annotations of \<^verbatim>\<open>control/messages.py\<close>
  name: integers (unbounded, \<^typ>\<open>int\<close>) and strings.  JSON floats are outside the
  embedding.  An exception that \<^verbatim>\<open>except Exception\<close> catches is a value carrying
  its class name and the text \<^verbatim>\<open>str(e)\<close> returns.
\<close>

datatype pyval = PyInt int | PyStr string

datatype py_exception = Exception (exc_type: string) (exc_str: string)

text \<open>\<^verbatim>\<open>try: body except Exception as e: handler(e)\<close> for a body without state.\<close>

definition try_except ::
  "py_exception + 'a \<Rightarrow> (py_exception \<Rightarrow> py_exception + 'a) \<Rightarrow> py_exception + 'a" where
  "try_except body handler = (case body of Inl e \<Rightarrow> handler e | Inr v \<Rightarrow> Inr v)"

text \<open>\<^verbatim>\<open>repr\<close> of a plain identifier: the text between single quotes.\<close>

definition quoted :: "string \<Rightarrow> string" where
  "quoted s = CHR 0x27 # s @ [CHR 0x27]"

definition AttributeError :: "string \<Rightarrow> string \<Rightarrow> py_exception" where
  "AttributeError cls attr =
     Exception ''AttributeError'' (quoted cls @ '' object has no attribute '' @ quoted attr)"

definition KeyError :: "string \<Rightarrow> py_exception" where
  "KeyError k = Exception ''KeyError'' (quoted k)"

definition ValueError :: "string \<Rightarrow> py_exception" where
  "ValueError msg = Exception ''ValueError'' msg"

definition RuntimeError :: "string \<Rightarrow> py_exception" where
  "RuntimeError msg = Exception ''RuntimeError'' msg"

text \<open>The error of \<^verbatim>\<open>min(bound, x)\<close> when \<^verbatim>\<open>x\<close> is a string: the comparison
  \<^verbatim>\<open>x < bound\<close> is not defined.\<close>

definition TypeError_lt :: "string \<Rightarrow> string \<Rightarrow> py_exception" where
  "TypeError_lt l r =
     Exception ''TypeError''
       (quoted ''<'' @ '' not supported between instances of '' @ quoted l @ '' and '' @ quoted r)"

text \<open>
  \<^verbatim>\<open>str.upper\<close> and \<^verbatim>\<open>str.lower\<close>.  On a string of ASCII characters they map
  the letters a to z and A to Z and nothing else, which is what the model computes.  On
  a string with a character outside ASCII they follow the case mapping of Unicode
  (a dotless i becomes I), which the model does not describe: there the result is left
  unspecified, so that nothing is proved about such strings.
\<close>

definition is_ascii :: "string \<Rightarrow> bool" where
  "is_ascii s = list_all (\<lambda>c. (of_char c :: nat) < 128) s"

definition ascii_lowercase :: string where
  "ascii_lowercase = ''abcdefghijklmnopqrstuvwxyz''"

definition ascii_uppercase :: string where
  "ascii_uppercase = ''ABCDEFGHIJKLMNOPQRSTUVWXYZ''"

definition upper_char :: "char \<Rightarrow> char" where
  "upper_char c =
     (case map_of (zip ascii_lowercase ascii_uppercase) c of Some u \<Rightarrow> u | None \<Rightarrow> c)"

definition lower_char :: "char \<Rightarrow> char" where
  "lower_char c =
     (case map_of (zip ascii_uppercase ascii_lowercase) c of Some l \<Rightarrow> l | None \<Rightarrow> c)"

definition py_upper :: "string \<Rightarrow> string" where
  "py_upper s = (if is_ascii s then map upper_char s else undefined s)"

definition py_lower :: "string \<Rightarrow> string" where
  "py_lower s = (if is_ascii s then map lower_char s else undefined s)"

text \<open>\<^verbatim>\<open>str(n)\<close> for an integer: decimal digits, a minus sign for a negative number.\<close>

definition digit_char :: "nat \<Rightarrow> char" where
  "digit_char d = ''0123456789'' ! d"

function string_of_nat :: "nat \<Rightarrow> string" where
  "string_of_nat n =
     (if n < 10 then [digit_char n] else string_of_nat (n div 10) @ [digit_char (n mod 10)])"
  by pat_completeness auto
termination
  by (relation "measure id") auto

definition string_of_int :: "int \<Rightarrow> string" where
  "string_of_int i = (if i < 0 then CHR ''-'' # string_of_nat (nat (- i)) else string_of_nat (nat i))"

text \<open>What an f-string interpolation \<^verbatim>\<open>{x}\<close> prints.\<close>

fun py_str :: "pyval \<Rightarrow> string" where
  "py_str (PyInt i) = string_of_int i"
| "py_str (PyStr s) = s"

section \<open>The camera: \<^verbatim>\<open>camera/arducam_depth_camera.py\<close>\<close>

text \<open>
  The vendor SDK object \<^verbatim>\<open>ac.ArducamCamera\<close> is external.  It is modelled by the
  outcome of each call the wrapper makes: a call returns a value or raises.  A frame the
  SDK hands out is an \<^verbatim>\<open>ac.DepthData\<close> (with its two buffers) or a frame of another
  class.  Buffers are opaque to this layer and kept as lists of numbers.
\<close>

type_synonym buffer = "int list"

datatype sdk_frame = DepthData (sdk_depth_data: buffer) (sdk_confidence_data: buffer) | RawData buffer

record ArducamCamera =
  requestFrame :: "int \<Rightarrow> py_exception + sdk_frame option"
  releaseFrame :: "sdk_frame \<Rightarrow> py_exception + unit"
  setControl :: "pyval \<Rightarrow> py_exception + unit"
  getControl :: "py_exception + pyval"

record ArducamCameraInfo =
  width :: int
  height :: int
  device_type :: string

record ArducamDepthFrame =
  depth_data :: buffer
  confidence_data :: buffer
  original_frame :: sdk_frame

text \<open>\<^verbatim>\<open>ArducamDepthFrame.__init__\<close>, called on a \<^verbatim>\<open>DepthData\<close> only; reading the
  two attributes of a frame of another class raises \<^verbatim>\<open>AttributeError\<close>.\<close>

fun ArducamDepthFrame_init :: "sdk_frame \<Rightarrow> py_exception + ArducamDepthFrame" where
  "ArducamDepthFrame_init (DepthData d c) =
     Inr \<lparr>depth_data = d, confidence_data = c, original_frame = DepthData d c\<rparr>"
| "ArducamDepthFrame_init (RawData b) = Inl (AttributeError ''RawData'' ''depth_data'')"

record ArducamDepthCamera =
  sdk :: ArducamCamera
  info :: "ArducamCameraInfo option"
  is_open :: bool
  is_started :: bool

text \<open>\<^verbatim>\<open>isinstance(frame, ac.DepthData)\<close>\<close>

fun is_DepthData :: "sdk_frame \<Rightarrow> bool" where
  "is_DepthData (DepthData d c) = True"
| "is_DepthData (RawData b) = False"

text \<open>
  \<^verbatim>\<open>ArducamDepthCamera.request_frame\<close>: the early return when the camera is not
  started, then the \<^verbatim>\<open>try\<close> block around the SDK call and the wrapper's constructor,
  and the \<^verbatim>\<open>except Exception\<close> clause that returns \<^verbatim>\<open>None\<close>.
\<close>

definition request_frame_try :: "ArducamDepthCamera \<Rightarrow> int \<Rightarrow> py_exception + ArducamDepthFrame option" where
  "request_frame_try cam timeout_ms =
     (case requestFrame (sdk cam) timeout_ms of
        Inl e \<Rightarrow> Inl e
      | Inr frame \<Rightarrow>
          (case frame of
             None \<Rightarrow> Inr None
           | Some f \<Rightarrow>
               if is_DepthData f
               then (case ArducamDepthFrame_init f of Inl e \<Rightarrow> Inl e | Inr w \<Rightarrow> Inr (Some w))
               else Inr None))"

definition request_frame :: "ArducamDepthCamera \<Rightarrow> int \<Rightarrow> py_exception + ArducamDepthFrame option" where
  "request_frame cam timeout_ms =
     (if \<not> is_started cam then Inr None
      else try_except (request_frame_try cam timeout_ms) (\<lambda>e. Inr None))"

text \<open>\<^verbatim>\<open>ArducamDepthCamera.release_frame\<close>: the SDK call inside \<^verbatim>\<open>try\<close>, any
  exception logged.  The wrapper always has \<^verbatim>\<open>_original_frame\<close>.\<close>

definition release_frame :: "ArducamDepthCamera \<Rightarrow> ArducamDepthFrame \<Rightarrow> py_exception + unit" where
  "release_frame cam frame =
     try_except (releaseFrame (sdk cam) (original_frame frame)) (\<lambda>e. Inr ())"

text \<open>\<^verbatim>\<open>ArducamDepthCamera.set_range\<close>: a warning and return when the camera is not
  open; otherwise the two SDK calls inside \<^verbatim>\<open>try\<close>, any exception logged.  No field
  of the wrapper changes.\<close>

definition ArducamDepthCamera_set_range ::
  "ArducamDepthCamera \<Rightarrow> pyval \<Rightarrow> (py_exception + unit) \<times> ArducamDepthCamera" where
  "ArducamDepthCamera_set_range cam max_distance =
     (if \<not> is_open cam then (Inr (), cam)
      else (try_except
              (case setControl (sdk cam) max_distance of
                 Inl e \<Rightarrow> Inl e
               | Inr u \<Rightarrow> (case getControl (sdk cam) of Inl e \<Rightarrow> Inl e | Inr actual_range \<Rightarrow> Inr ()))
              (\<lambda>e. Inr ()), cam))"

text \<open>\<^verbatim>\<open>ArducamDepthCamera.get_camera_info\<close>\<close>

definition get_camera_info :: "ArducamDepthCamera \<Rightarrow> py_exception + ArducamCameraInfo" where
  "get_camera_info cam =
     (case info cam of None \<Rightarrow> Inl (RuntimeError ''Camera not started'') | Some i \<Rightarrow> Inr i)"

section \<open>Frame processing: \<^verbatim>\<open>camera/frame_processing.py\<close>\<close>

text \<open>
  An image is a numpy array of shape (height, width, 3) with 8-bit entries.
  \<^verbatim>\<open>np.zeros((h, w, 3), dtype=np.uint8)\<close> raises \<^verbatim>\<open>ValueError\<close> on a negative
  dimension.
\<close>

record ndarray =
  shape :: "nat \<times> nat \<times> nat"
  entries :: "nat list"

definition black_image :: "nat \<Rightarrow> nat \<Rightarrow> ndarray" where
  "black_image h w = \<lparr>shape = (h, w, 3), entries = replicate (h * w * 3) 0\<rparr>"

definition np_zeros :: "int \<Rightarrow> int \<Rightarrow> py_exception + ndarray" where
  "np_zeros h w =
     (if h < 0 \<or> w < 0 then Inl (ValueError ''negative dimensions are not allowed'')
      else Inr (black_image (nat h) (nat w)))"

text \<open>The OpenCV colormap constants the processor refers to, by name.\<close>

datatype cv2_colormap =
  COLORMAP_RAINBOW | COLORMAP_JET | COLORMAP_TURBO | COLORMAP_HOT | COLORMAP_COOL
  | COLORMAP_HSV | COLORMAP_BONE

definition COLORMAPS :: "string \<rightharpoonup> cv2_colormap" where
  "COLORMAPS =
     map_of [(''RAINBOW'', COLORMAP_RAINBOW), (''JET'', COLORMAP_JET), (''TURBO'', COLORMAP_TURBO),
             (''HOT'', COLORMAP_HOT), (''COOL'', COLORMAP_COOL), (''HSV'', COLORMAP_HSV),
             (''BONE'', COLORMAP_BONE)]"

record DepthFrameProcessor =
  max_distance :: int
  confidence_threshold :: int
  colormap :: cv2_colormap

definition DepthFrameProcessor_init :: "int \<Rightarrow> DepthFrameProcessor" where
  "DepthFrameProcessor_init d =
     \<lparr>max_distance = d, confidence_threshold = 30, colormap = COLORMAP_RAINBOW\<rparr>"

text \<open>
  \<^verbatim>\<open>DepthFrameProcessor.process_frame\<close>: the numpy and OpenCV pipeline is external
  (\<open>render\<close>: it returns an image or raises); the method wraps it in \<^verbatim>\<open>try\<close> and
  returns a black 480 by 640 image on any exception.
\<close>

definition process_frame ::
  "(DepthFrameProcessor \<Rightarrow> ArducamDepthFrame \<Rightarrow> py_exception + ndarray) \<Rightarrow>
   DepthFrameProcessor \<Rightarrow> ArducamDepthFrame \<Rightarrow> py_exception + ndarray" where
  "process_frame render proc frame = try_except (render proc frame) (\<lambda>e. np_zeros 480 640)"

text \<open>\<^verbatim>\<open>DepthFrameProcessor.set_confidence_threshold\<close>:
  \<^verbatim>\<open>max(0, min(255, threshold))\<close>; comparing a string with 255 raises.\<close>

fun DepthFrameProcessor_set_confidence_threshold ::
  "DepthFrameProcessor \<Rightarrow> pyval \<Rightarrow> (py_exception + unit) \<times> DepthFrameProcessor" where
  "DepthFrameProcessor_set_confidence_threshold proc (PyInt threshold) =
     (Inr (), proc\<lparr>confidence_threshold := max 0 (min 255 threshold)\<rparr>)"
| "DepthFrameProcessor_set_confidence_threshold proc (PyStr threshold) =
     (Inl (TypeError_lt ''str'' ''int''), proc)"

text \<open>\<^verbatim>\<open>DepthFrameProcessor.set_colormap\<close>: the name is upper-cased and looked up in
  \<open>COLORMAPS\<close>; a name that is not a key only logs a warning.  An integer has no
  \<^verbatim>\<open>upper\<close>.\<close>

fun DepthFrameProcessor_set_colormap ::
  "DepthFrameProcessor \<Rightarrow> pyval \<Rightarrow> (py_exception + unit) \<times> DepthFrameProcessor" where
  "DepthFrameProcessor_set_colormap proc (PyStr name) =
     (case COLORMAPS (py_upper name) of
        Some cm \<Rightarrow> (Inr (), proc\<lparr>colormap := cm\<rparr>)
      | None \<Rightarrow> (Inr (), proc))"
| "DepthFrameProcessor_set_colormap proc (PyInt n) = (Inl (AttributeError ''int'' ''upper''), proc)"

section \<open>The video track: \<^verbatim>\<open>webrtc/video_track.py\<close>\<close>

text \<open>
  Times are the results of \<^verbatim>\<open>time.time()\<close>, kept as real numbers.  The field
  \<^verbatim>\<open>frame_interval\<close> holds the quotient \<^verbatim>\<open>1.0 / fps_limit\<close>; the rounding of that
  floating-point division is not modelled, and no definition computes with the field:
  the outcome of the one comparison the code makes with it is an input of \<open>recv\<close>.
  \<^verbatim>\<open>timestamp\<close> is the attribute \<^verbatim>\<open>_timestamp\<close> that the base class
  \<^verbatim>\<open>VideoStreamTrack\<close> of the transport library keeps; it is absent until
  \<^verbatim>\<open>next_timestamp\<close> is called for the first time.
\<close>

record DepthVideoStreamTrack =
  fps_limit :: int
  frame_interval :: real
  last_frame_time :: real
  running :: bool
  current_frame :: "ndarray option"
  timestamp :: "int option"

definition DepthVideoStreamTrack_init :: "int \<Rightarrow> DepthVideoStreamTrack" where
  "DepthVideoStreamTrack_init fps =
     \<lparr>fps_limit = fps, frame_interval = 1 / real_of_int fps, last_frame_time = 0,
      running = False, current_frame = None, timestamp = None\<rparr>"

text \<open>\<^verbatim>\<open>DepthVideoStreamTrack.set_fps_limit\<close>\<close>

fun DepthVideoStreamTrack_set_fps_limit ::
  "DepthVideoStreamTrack \<Rightarrow> pyval \<Rightarrow> (py_exception + unit) \<times> DepthVideoStreamTrack" where
  "DepthVideoStreamTrack_set_fps_limit track (PyInt fps) =
     (Inr (), track\<lparr>fps_limit := max 5 (min 30 fps),
                     frame_interval := 1 / real_of_int (max 5 (min 30 fps))\<rparr>)"
| "DepthVideoStreamTrack_set_fps_limit track (PyStr fps) = (Inl (TypeError_lt ''str'' ''int''), track)"

text \<open>
  \<^verbatim>\<open>VideoStreamTrack.next_timestamp\<close> of the transport library: the presentation
  time stamp on the 90 kHz video clock, 0 at the first call and 3000 more (one
  thirtieth of a second) at each later call.  The track never leaves the state
  \<^verbatim>\<open>live\<close>, because \<^verbatim>\<open>DepthVideoStreamTrack.stop\<close> replaces the method of the
  base class that would end it.
\<close>

definition next_timestamp :: "DepthVideoStreamTrack \<Rightarrow> int \<times> DepthVideoStreamTrack" where
  "next_timestamp track =
     (case timestamp track of
        None \<Rightarrow> (0, track\<lparr>timestamp := Some 0\<rparr>)
      | Some t \<Rightarrow> (t + 3000, track\<lparr>timestamp := Some (t + 3000)\<rparr>))"

text \<open>
  \<^verbatim>\<open>VideoFrame.from_ndarray(array, format='rgb24', channel_last=False)\<close> of the media
  library: its second positional parameter is the name of the pixel format.  For an
  image of three 8-bit channels the names \<^verbatim>\<open>rgb24\<close> and \<^verbatim>\<open>bgr24\<close> are
  converted; a value that is no format name the library converts from is refused with
  \<^verbatim>\<open>ValueError\<close>.  An integer is never a format name.
\<close>

datatype VideoFrame = VideoFrame (frame_array: ndarray) (frame_format: string)

definition unsupported_format :: "string \<Rightarrow> py_exception" where
  "unsupported_format fmt =
     ValueError (''Conversion from numpy array with format '' @ CHR 0x60 # fmt @ CHR 0x60 #
                 '' is not yet supported'')"

fun from_ndarray :: "ndarray \<Rightarrow> pyval \<Rightarrow> py_exception + VideoFrame" where
  "from_ndarray array (PyStr fmt) =
     (if fmt = ''rgb24'' \<or> fmt = ''bgr24'' then Inr (VideoFrame array fmt)
      else Inl (unsupported_format fmt))"
| "from_ndarray array (PyInt n) = Inl (unsupported_format (string_of_int n))"

text \<open>
  \<^verbatim>\<open>DepthVideoStreamTrack.recv\<close>.  Every \<^verbatim>\<open>return\<close> of the method has the form
  \<^verbatim>\<open>VideoFrame.from_ndarray(array, pts, time_base)\<close> with \<^verbatim>\<open>pts, time_base\<close> taken
  from \<^verbatim>\<open>next_timestamp\<close>: the integer \<^verbatim>\<open>pts\<close> stands where the library expects
  the format.  \<open>proc\<close> is the \<^verbatim>\<open>process_frame\<close> method of the track's frame
  processor.  A call returns the frame or the exception that leaves it, and the state
  of the track.

  \<open>recv_try\<close> is the \<^verbatim>\<open>try\<close> block entered with a camera frame.
\<close>

definition recv_try ::
  "(ArducamDepthFrame \<Rightarrow> py_exception + ndarray) \<Rightarrow> ArducamDepthCamera \<Rightarrow> real \<Rightarrow>
   ArducamDepthFrame \<Rightarrow> DepthVideoStreamTrack \<Rightarrow> (py_exception + VideoFrame) \<times> DepthVideoStreamTrack" where
  "recv_try proc cam current_time frame track =
     (case proc frame of
        Inl e \<Rightarrow> (Inl e, track)
      | Inr processed_frame \<Rightarrow>
          (let cached = track\<lparr>current_frame := Some processed_frame, last_frame_time := current_time\<rparr>
           in case release_frame cam frame of
                Inl e \<Rightarrow> (Inl e, cached)
              | Inr u \<Rightarrow>
                  (case next_timestamp cached of
                     (pts, stamped) \<Rightarrow> (from_ndarray processed_frame (PyInt pts), stamped))))"

text \<open>The image the end of \<^verbatim>\<open>recv\<close> chooses: the cached frame, or a black image of
  the camera's resolution, or, when \<^verbatim>\<open>get_camera_info\<close> or \<^verbatim>\<open>np.zeros\<close> raises,
  of 180 by 240.\<close>

definition fallback_frame_data :: "ArducamDepthCamera \<Rightarrow> DepthVideoStreamTrack \<Rightarrow> py_exception + ndarray" where
  "fallback_frame_data cam track =
     (case current_frame track of
        Some cached \<Rightarrow> Inr cached
      | None \<Rightarrow>
          try_except
            (case get_camera_info cam of
               Inl e \<Rightarrow> Inl e
             | Inr camera_info \<Rightarrow> np_zeros (height camera_info) (width camera_info))
            (\<lambda>e. np_zeros 180 240))"

text \<open>The end of \<^verbatim>\<open>recv\<close>, outside every \<^verbatim>\<open>try\<close>: the time stamp, the image,
  the frame.\<close>

definition recv_fallback ::
  "ArducamDepthCamera \<Rightarrow> DepthVideoStreamTrack \<Rightarrow> (py_exception + VideoFrame) \<times> DepthVideoStreamTrack" where
  "recv_fallback cam track =
     (case next_timestamp track of
        (pts, stamped) \<Rightarrow>
          (case fallback_frame_data cam stamped of
             Inl e \<Rightarrow> (Inl e, stamped)
           | Inr frame_data \<Rightarrow> (from_ndarray frame_data (PyInt pts), stamped)))"

text \<open>
  The whole method: the black frame of a stopped track; the rate limit, where
  \<open>ahead\<close> is the outcome of the floating-point comparison
  \<^verbatim>\<open>current_time - self.last_frame_time < self.frame_interval\<close> (the cached frame when
  one exists, a sleep otherwise); the camera request; the \<^verbatim>\<open>try\<close> block with its
  \<^verbatim>\<open>except\<close> clause, which releases the camera frame again; and the end.
\<close>

definition recv ::
  "(ArducamDepthFrame \<Rightarrow> py_exception + ndarray) \<Rightarrow> ArducamDepthCamera \<Rightarrow> bool \<Rightarrow> real \<Rightarrow>
   DepthVideoStreamTrack \<Rightarrow> (py_exception + VideoFrame) \<times> DepthVideoStreamTrack" where
  "recv proc cam ahead current_time track =
     (if \<not> running track then
        (case next_timestamp track of
           (pts, stamped) \<Rightarrow>
             (case np_zeros 480 640 of
                Inl e \<Rightarrow> (Inl e, stamped)
              | Inr black \<Rightarrow> (from_ndarray black (PyInt pts), stamped)))
      else if ahead \<and> current_frame track \<noteq> None then
        (case next_timestamp track of
           (pts, stamped) \<Rightarrow> (from_ndarray (the (current_frame track)) (PyInt pts), stamped))
      else
        (case request_frame cam 2000 of
           Inl e \<Rightarrow> (Inl e, track)
         | Inr None \<Rightarrow> recv_fallback cam track
         | Inr (Some frame) \<Rightarrow>
             (case recv_try proc cam current_time frame track of
                (Inr video_frame, track') \<Rightarrow> (Inr video_frame, track')
              | (Inl e, track') \<Rightarrow>
                  (case release_frame cam frame of
                     Inl e' \<Rightarrow> (Inl e', track')
                   | Inr u \<Rightarrow> recv_fallback cam track'))))"

section \<open>Control messages: \<^verbatim>\<open>control/messages.py\<close>\<close>

text \<open>
  The four command dataclasses.  A field holds whatever the payload held.  A value that
  is none of the four (the \<^verbatim>\<open>else\<close> branch of the handler) is \<open>OtherObject\<close> with
  the name of its class.
\<close>

datatype ControlCommand =
  SetRangeCommand pyval
  | SetConfidenceCommand pyval
  | SetColormapCommand pyval
  | SetFpsLimitCommand pyval
  | OtherObject string

text \<open>\<^verbatim>\<open>type(command).__name__\<close>\<close>

fun type_name :: "ControlCommand \<Rightarrow> string" where
  "type_name (SetRangeCommand v) = ''SetRangeCommand''"
| "type_name (SetConfidenceCommand v) = ''SetConfidenceCommand''"
| "type_name (SetColormapCommand v) = ''SetColormapCommand''"
| "type_name (SetFpsLimitCommand v) = ''SetFpsLimitCommand''"
| "type_name (OtherObject cls) = cls"

record ControlMessage =
  message_type :: string
  payload :: "string \<rightharpoonup> pyval"

text \<open>\<^verbatim>\<open>self.payload[key]\<close>\<close>

definition payload_item :: "(string \<rightharpoonup> pyval) \<Rightarrow> string \<Rightarrow> py_exception + pyval" where
  "payload_item p k = (case p k of None \<Rightarrow> Inl (KeyError k) | Some v \<Rightarrow> Inr v)"

text \<open>\<^verbatim>\<open>ControlMessage.to_command\<close>\<close>

definition to_command :: "ControlMessage \<Rightarrow> py_exception + ControlCommand" where
  "to_command m =
     (if message_type m = ''set_range'' then
        (case payload_item (payload m) ''max_distance'' of
           Inl e \<Rightarrow> Inl e | Inr v \<Rightarrow> Inr (SetRangeCommand v))
      else if message_type m = ''set_confidence_threshold'' then
        (case payload_item (payload m) ''threshold'' of
           Inl e \<Rightarrow> Inl e | Inr v \<Rightarrow> Inr (SetConfidenceCommand v))
      else if message_type m = ''set_colormap'' then
        (case payload_item (payload m) ''colormap'' of
           Inl e \<Rightarrow> Inl e | Inr v \<Rightarrow> Inr (SetColormapCommand v))
      else if message_type m = ''set_fps_limit'' then
        (case payload_item (payload m) ''fps'' of
           Inl e \<Rightarrow> Inl e | Inr v \<Rightarrow> Inr (SetFpsLimitCommand v))
      else Inl (ValueError (''Unknown command type: '' @ message_type m)))"

text \<open>\<^verbatim>\<open>ControlResponse(type, command_type, message)\<close>\<close>

datatype ControlResponse =
  ControlResponse (response_type: string) (command_type: string) (message: string)

section \<open>The control handler: \<^verbatim>\<open>control/handlers.py\<close>\<close>

text \<open>
  A controller method takes its argument and the state of the application and either
  returns or raises, leaving a state behind in both cases.  The two controller
  protocols are records of such methods, so \<open>handle_command\<close> is stated for any
  pair of controllers.
\<close>

type_synonym 's py_method = "pyval \<Rightarrow> 's \<Rightarrow> (py_exception + unit) \<times> 's"

record 's ICameraController =
  set_range :: "'s py_method"
  set_confidence_threshold :: "'s py_method"
  set_colormap :: "'s py_method"

record 's IStreamController =
  set_fps_limit :: "'s py_method"

record 's ControlHandler =
  camera_controller :: "'s ICameraController"
  stream_controller :: "'s IStreamController"

text \<open>One branch of the \<^verbatim>\<open>try\<close> block: await the controller, then build the
  \<^verbatim>\<open>ack\<close>; an exception of the controller leaves the block.\<close>

definition call_then_ack ::
  "'s py_method \<Rightarrow> pyval \<Rightarrow> string \<Rightarrow> string \<Rightarrow> 's \<Rightarrow> (py_exception + ControlResponse) \<times> 's" where
  "call_then_ack meth v kind label s =
     (case meth v s of
        (Inl e, s') \<Rightarrow> (Inl e, s')
      | (Inr u, s') \<Rightarrow> (Inr (ControlResponse ''ack'' kind (label @ py_str v)), s'))"

text \<open>The \<^verbatim>\<open>try\<close> block of \<^verbatim>\<open>ControlHandler.handle_command\<close>\<close>

fun handle_command_try ::
  "'s ControlHandler \<Rightarrow> ControlCommand \<Rightarrow> 's \<Rightarrow> (py_exception + ControlResponse) \<times> 's" where
  "handle_command_try h (SetRangeCommand distance) s =
     call_then_ack (set_range (camera_controller h)) distance
       ''set_range'' ''Range set to '' s"
| "handle_command_try h (SetConfidenceCommand level) s =
     call_then_ack (set_confidence_threshold (camera_controller h)) level
       ''set_confidence_threshold'' ''Confidence threshold set to '' s"
| "handle_command_try h (SetColormapCommand name) s =
     call_then_ack (set_colormap (camera_controller h)) name
       ''set_colormap'' ''Colormap set to '' s"
| "handle_command_try h (SetFpsLimitCommand fps) s =
     call_then_ack (set_fps_limit (stream_controller h)) fps
       ''set_fps_limit'' ''FPS limit set to '' s"
| "handle_command_try h (OtherObject cls) s =
     (Inr (ControlResponse ''error'' ''unknown'' ''Unknown command type''), s)"

text \<open>\<^verbatim>\<open>ControlHandler.handle_command\<close>: the \<^verbatim>\<open>try\<close> block and the
  \<^verbatim>\<open>except Exception\<close> clause, which answers with the lower-cased class name of the
  command and \<^verbatim>\<open>str(e)\<close>.\<close>

definition handle_command ::
  "'s ControlHandler \<Rightarrow> ControlCommand \<Rightarrow> 's \<Rightarrow> (py_exception + ControlResponse) \<times> 's" where
  "handle_command h command s =
     (case handle_command_try h command s of
        (Inl e, s') \<Rightarrow> (Inr (ControlResponse ''error'' (py_lower (type_name command)) (exc_str e)), s')
      | (Inr response, s') \<Rightarrow> (Inr response, s'))"

section \<open>The application: \<^verbatim>\<open>main.py\<close>\<close>

text \<open>
  The objects \<^verbatim>\<open>DepthStreamerApp.__init__\<close> creates that the control path can reach:
  the camera, the frame processor, and the video track the peer manager owns.
\<close>

record DepthStreamerApp =
  camera :: ArducamDepthCamera
  frame_processor :: DepthFrameProcessor
  video_track :: DepthVideoStreamTrack

text \<open>
  Python finds a method by name when it is called.  Each class is given by its name and
  the controller methods it defines (among the four names the handler calls); calling a
  name the class does not define raises \<^verbatim>\<open>AttributeError\<close>.
\<close>

record py_class =
  class_name :: string
  class_methods :: "string \<rightharpoonup> DepthStreamerApp py_method"

definition call_method :: "py_class \<Rightarrow> string \<Rightarrow> DepthStreamerApp py_method" where
  "call_method cls name =
     (case class_methods cls name of
        Some m \<Rightarrow> m
      | None \<Rightarrow> (\<lambda>v s. (Inl (AttributeError (class_name cls) name), s)))"

definition as_camera_controller :: "py_class \<Rightarrow> DepthStreamerApp ICameraController" where
  "as_camera_controller cls =
     \<lparr>set_range = call_method cls ''set_range'',
      set_confidence_threshold = call_method cls ''set_confidence_threshold'',
      set_colormap = call_method cls ''set_colormap''\<rparr>"

definition as_stream_controller :: "py_class \<Rightarrow> DepthStreamerApp IStreamController" where
  "as_stream_controller cls = \<lparr>set_fps_limit = call_method cls ''set_fps_limit''\<rparr>"

text \<open>The application's camera: \<^verbatim>\<open>ArducamDepthCamera\<close> defines \<^verbatim>\<open>set_range\<close> only.\<close>

definition camera_object :: py_class where
  "camera_object =
     \<lparr>class_name = ''ArducamDepthCamera'',
      class_methods =
        [''set_range'' \<mapsto>
           (\<lambda>v s. case ArducamDepthCamera_set_range (camera s) v of
                     (r, cam') \<Rightarrow> (r, s\<lparr>camera := cam'\<rparr>))]\<rparr>"

text \<open>The application's frame processor: \<^verbatim>\<open>DepthFrameProcessor\<close> defines
  \<^verbatim>\<open>set_confidence_threshold\<close> and \<^verbatim>\<open>set_colormap\<close>.\<close>

definition frame_processor_object :: py_class where
  "frame_processor_object =
     \<lparr>class_name = ''DepthFrameProcessor'',
      class_methods =
        [''set_confidence_threshold'' \<mapsto>
           (\<lambda>v s. case DepthFrameProcessor_set_confidence_threshold (frame_processor s) v of
                     (r, proc') \<Rightarrow> (r, s\<lparr>frame_processor := proc'\<rparr>)),
         ''set_colormap'' \<mapsto>
           (\<lambda>v s. case DepthFrameProcessor_set_colormap (frame_processor s) v of
                     (r, proc') \<Rightarrow> (r, s\<lparr>frame_processor := proc'\<rparr>))]\<rparr>"

text \<open>The peer manager's video track: \<^verbatim>\<open>DepthVideoStreamTrack\<close> defines
  \<^verbatim>\<open>set_fps_limit\<close>.\<close>

definition video_track_object :: py_class where
  "video_track_object =
     \<lparr>class_name = ''DepthVideoStreamTrack'',
      class_methods =
        [''set_fps_limit'' \<mapsto>
           (\<lambda>v s. case DepthVideoStreamTrack_set_fps_limit (video_track s) v of
                     (r, track') \<Rightarrow> (r, s\<lparr>video_track := track'\<rparr>))]\<rparr>"

text \<open>
  The handler as \<^verbatim>\<open>DepthStreamerApp.__init__\<close> builds it:
  \<^verbatim>\<open>ControlHandler(camera_controller=self.camera, stream_controller=self.frame_processor)\<close>.
  Nothing in the repository assigns either controller again.
\<close>

definition control_handler :: "DepthStreamerApp ControlHandler" where
  "control_handler =
     \<lparr>camera_controller = as_camera_controller camera_object,
      stream_controller = as_stream_controller frame_processor_object\<rparr>"

section \<open>The signaling server: \<^verbatim>\<open>webrtc/signaling_ws.py\<close>\<close>

text \<open>
  \<^verbatim>\<open>clients\<close> maps a client identifier to its websocket (an object identity),
  \<^verbatim>\<open>rooms\<close> maps a room identifier to the set of its members.  A JSON message is
  the list of its items.  What an operation sends is the set of pairs of a receiving
  client and the message: one \<^verbatim>\<open>send\<close> per pair, gathered concurrently.
\<close>

type_synonym json_message = "(string \<times> pyval) list"

record SignalingServer =
  clients :: "string \<rightharpoonup> nat"
  rooms :: "string \<rightharpoonup> string set"

definition SignalingServer_init :: SignalingServer where
  "SignalingServer_init = \<lparr>clients = Map.empty, rooms = Map.empty\<rparr>"

text \<open>\<^verbatim>\<open>SignalingServer.broadcast_to_room\<close>\<close>

definition broadcast_to_room ::
  "SignalingServer \<Rightarrow> string \<Rightarrow> json_message \<Rightarrow> string option \<Rightarrow> (string \<times> json_message) set" where
  "broadcast_to_room srv room_id msg exclude_client =
     (case rooms srv room_id of
        None \<Rightarrow> {}
      | Some members \<Rightarrow>
          (\<lambda>client_id. (client_id, msg)) `
            {client_id \<in> members. Some client_id \<noteq> exclude_client \<and> clients srv client_id \<noteq> None})"

definition peer_joined :: "string \<Rightarrow> json_message" where
  "peer_joined client_id = [(''type'', PyStr ''peer_joined''), (''peer_id'', PyStr client_id)]"

definition peer_left :: "string \<Rightarrow> json_message" where
  "peer_left client_id = [(''type'', PyStr ''peer_left''), (''peer_id'', PyStr client_id)]"

text \<open>\<^verbatim>\<open>SignalingServer.join_room\<close>: the state after it and what it sends.\<close>

definition join_room ::
  "SignalingServer \<Rightarrow> string \<Rightarrow> string \<Rightarrow> SignalingServer \<times> (string \<times> json_message) set" where
  "join_room srv client_id room_id =
     (let created = (if rooms srv room_id = None
                     then srv\<lparr>rooms := (rooms srv)(room_id \<mapsto> {})\<rparr> else srv);
          joined = created\<lparr>rooms := (rooms created)(room_id \<mapsto>
                      insert client_id (the (rooms created room_id)))\<rparr>
      in (joined, broadcast_to_room joined room_id (peer_joined client_id) (Some client_id)))"

text \<open>\<^verbatim>\<open>SignalingServer.leave_room\<close>\<close>

definition leave_room ::
  "SignalingServer \<Rightarrow> string \<Rightarrow> string \<Rightarrow> SignalingServer \<times> (string \<times> json_message) set" where
  "leave_room srv client_id room_id =
     (case rooms srv room_id of
        None \<Rightarrow> (srv, {})
      | Some members \<Rightarrow>
          (let discarded = srv\<lparr>rooms := (rooms srv)(room_id \<mapsto> members - {client_id})\<rparr>;
               left = (if members - {client_id} = {}
                       then discarded\<lparr>rooms := (rooms discarded)(room_id := None)\<rparr>
                       else discarded)
           in (left, broadcast_to_room left room_id (peer_left client_id) (Some client_id))))"

text \<open>The start of \<^verbatim>\<open>SignalingServer.handle_connection\<close>: the client is registered.\<close>

definition register_client :: "SignalingServer \<Rightarrow> string \<Rightarrow> nat \<Rightarrow> SignalingServer" where
  "register_client srv client_id websocket = srv\<lparr>clients := (clients srv)(client_id \<mapsto> websocket)\<rparr>"

text \<open>The \<^verbatim>\<open>finally\<close> clause of \<^verbatim>\<open>handle_connection\<close>, run when the connection
  ends: the client is unregistered and discarded from the member set of every room.\<close>

definition disconnect_client :: "SignalingServer \<Rightarrow> string \<Rightarrow> SignalingServer" where
  "disconnect_client srv client_id =
     (if client_id \<noteq> [] then
        srv\<lparr>clients := (clients srv)(client_id := None),
            rooms := (\<lambda>room_id. map_option (\<lambda>room_clients. room_clients - {client_id})
                                   (rooms srv room_id))\<rparr>
      else srv)"

text \<open>The operations of a run of the server, and the state after a sequence of them.\<close>

datatype signaling_op =
  Connect string nat
  | Join string string
  | Leave string string
  | Disconnect string

fun signaling_step :: "SignalingServer \<Rightarrow> signaling_op \<Rightarrow> SignalingServer" where
  "signaling_step srv (Connect client_id websocket) = register_client srv client_id websocket"
| "signaling_step srv (Join client_id room_id) = fst (join_room srv client_id room_id)"
| "signaling_step srv (Leave client_id room_id) = fst (leave_room srv client_id room_id)"
| "signaling_step srv (Disconnect client_id) = disconnect_client srv client_id"

definition signaling_run :: "SignalingServer \<Rightarrow> signaling_op list \<Rightarrow> SignalingServer" where
  "signaling_run srv ops = foldl signaling_step srv ops"

text \<open>The room registry holds no room without members.\<close>

definition rooms_have_members :: "SignalingServer \<Rightarrow> bool" where
  "rooms_have_members srv = (\<forall>room_id members. rooms srv room_id = Some members \<longrightarrow> members \<noteq> {})"

section \<open>The peer manager: \<^verbatim>\<open>webrtc/peer_manager.py\<close>\<close>

text \<open>
  An \<^verbatim>\<open>RTCPeerConnection\<close> belongs to the transport library.  The model keeps what
  the manager does to it: the track added, the descriptions set, the data channels
  created, and whether \<^verbatim>\<open>close\<close> was called (\<open>isClosed\<close>); the connection
  states the library moves through while it negotiates are not part of the model.
  Every connection object ever created is
  an entry of \<open>connections\<close>, and its index is its identity; \<^verbatim>\<open>peers\<close> maps a
  client identifier to the connection it refers to.
  The coercion of unset transceiver directions in \<^verbatim>\<open>handle_offer\<close> touches only
  the library's transceiver objects and is not part of the model.
\<close>

record RTCPeerConnection =
  isClosed :: bool
  senders :: nat
  remoteDescription :: "(pyval option \<times> pyval option) option"
  localDescription :: "string option"
  dataChannels :: "string list"

definition RTCPeerConnection_init :: RTCPeerConnection where
  "RTCPeerConnection_init =
     \<lparr>isClosed = False, senders = 0, remoteDescription = None,
      localDescription = None, dataChannels = []\<rparr>"

definition pc_close :: "RTCPeerConnection \<Rightarrow> RTCPeerConnection" where
  "pc_close pc = pc\<lparr>isClosed := True\<rparr>"

record PeerManager =
  peers :: "string \<rightharpoonup> nat"
  connections :: "RTCPeerConnection list"

definition PeerManager_init :: PeerManager where
  "PeerManager_init = \<lparr>peers = Map.empty, connections = []\<rparr>"

text \<open>\<^verbatim>\<open>PeerManager.create_peer_connection\<close>: a new connection is created, stored under
  the peer's identifier, and given the relayed video track.\<close>

definition create_peer_connection :: "PeerManager \<Rightarrow> string \<Rightarrow> nat \<times> PeerManager" where
  "create_peer_connection pm peer_id =
     (let pc = length (connections pm)
      in (pc, pm\<lparr>connections := connections pm @ [RTCPeerConnection_init\<lparr>senders := 1\<rparr>],
                 peers := (peers pm)(peer_id \<mapsto> pc)\<rparr>))"

text \<open>
  What the transport library answers during a negotiation: whether building and setting
  the remote description raises, and the session description of the answer, unless
  creating or setting it raises.
\<close>

record negotiation =
  setRemoteDescription :: "pyval option \<times> pyval option \<Rightarrow> py_exception + unit"
  createAnswer :: "py_exception + string"

definition update_connection ::
  "PeerManager \<Rightarrow> nat \<Rightarrow> (RTCPeerConnection \<Rightarrow> RTCPeerConnection) \<Rightarrow> PeerManager" where
  "update_connection pm pc f = pm\<lparr>connections := (connections pm)[pc := f (connections pm ! pc)]\<rparr>"

text \<open>\<^verbatim>\<open>PeerManager.handle_offer\<close>: the answer returned to the caller, or the
  exception that leaves the method, and the manager's state.  The offer is the JSON
  object the client sent.\<close>

definition handle_offer ::
  "negotiation \<Rightarrow> PeerManager \<Rightarrow> string \<Rightarrow> (string \<rightharpoonup> pyval) \<Rightarrow>
   (py_exception + json_message) \<times> PeerManager" where
  "handle_offer lib pm sender_id offer =
     (case create_peer_connection pm sender_id of
        (pc, pm1) \<Rightarrow>
          (let webrtc_offer = (offer ''type'', offer ''sdp'')
           in case setRemoteDescription lib webrtc_offer of
                Inl e \<Rightarrow> (Inl e, pm1)
              | Inr u \<Rightarrow>
                  (let pm2 = update_connection pm1 pc (\<lambda>c. c\<lparr>remoteDescription := Some webrtc_offer\<rparr>)
                   in case createAnswer lib of
                        Inl e \<Rightarrow> (Inl e, pm2)
                      | Inr answer \<Rightarrow>
                          (Inr [(''type'', PyStr ''answer''), (''sdp'', PyStr answer),
                                (''target'', PyStr sender_id)],
                           update_connection pm2 pc
                             (\<lambda>c. c\<lparr>localDescription := Some answer,
                                     dataChannels := dataChannels c @ [''controls'']\<rparr>)))))"

text \<open>\<^verbatim>\<open>PeerManager.remove_peer\<close>\<close>

definition remove_peer :: "PeerManager \<Rightarrow> string \<Rightarrow> PeerManager" where
  "remove_peer pm peer_id =
     (case peers pm peer_id of
        None \<Rightarrow> pm
      | Some pc \<Rightarrow> (update_connection pm pc pc_close)\<lparr>peers := (peers pm)(peer_id := None)\<rparr>)"

text \<open>\<^verbatim>\<open>PeerManager.stop\<close>: every connection the manager refers to is closed, then the
  map is cleared.\<close>

definition stop_peers :: "PeerManager \<Rightarrow> PeerManager" where
  "stop_peers pm =
     pm\<lparr>connections :=
          map (\<lambda>(pc, c). if pc \<in> ran (peers pm) then pc_close c else c)
            (zip [0..<length (connections pm)] (connections pm)),
        peers := Map.empty\<rparr>"

section \<open>Concrete scenarios\<close>

text \<open>
  Three behaviours of the SDK: every frame request times out; every call raises; every
  frame request delivers the same depth frame.
\<close>

definition sdk_timing_out :: ArducamCamera where
  "sdk_timing_out =
     \<lparr>requestFrame = (\<lambda>t. Inr None), releaseFrame = (\<lambda>f. Inr ()),
      setControl = (\<lambda>v. Inr ()), getControl = Inr (PyInt 4000)\<rparr>"

definition sdk_raising :: ArducamCamera where
  "sdk_raising =
     \<lparr>requestFrame = (\<lambda>t. Inl (RuntimeError ''device lost'')),
      releaseFrame = (\<lambda>f. Inl (RuntimeError ''device lost'')),
      setControl = (\<lambda>v. Inl (RuntimeError ''device lost'')),
      getControl = Inl (RuntimeError ''device lost'')\<rparr>"

definition sdk_streaming :: ArducamCamera where
  "sdk_streaming =
     \<lparr>requestFrame = (\<lambda>t. Inr (Some (DepthData [1200, 0] [80, 5]))),
      releaseFrame = (\<lambda>f. Inr ()),
      setControl = (\<lambda>v. Inr ()), getControl = Inr (PyInt 4000)\<rparr>"

text \<open>A camera that was opened, and one that was opened and started (240 by 180).\<close>

definition opened_camera :: "ArducamCamera \<Rightarrow> ArducamDepthCamera" where
  "opened_camera lib = \<lparr>sdk = lib, info = None, is_open = True, is_started = False\<rparr>"

definition started_camera :: "ArducamCamera \<Rightarrow> ArducamDepthCamera" where
  "started_camera lib =
     \<lparr>sdk = lib, info = Some \<lparr>width = 240, height = 180, device_type = ''DeviceType.VGA''\<rparr>,
      is_open = True, is_started = True\<rparr>"

text \<open>The application after start-up, with the defaults of \<^verbatim>\<open>config.py\<close>.\<close>

definition started_app :: DepthStreamerApp where
  "started_app =
     \<lparr>camera = started_camera sdk_streaming,
      frame_processor = DepthFrameProcessor_init 4000,
      video_track = (DepthVideoStreamTrack_init 30)\<lparr>running := True\<rparr>\<rparr>"

text \<open>A running track before its first tick, and a running track that cached a 2 by 2
  image at time 50 during an earlier tick; a rendering pipeline that raises (a maximum
  distance of 0 makes \<^verbatim>\<open>255.0 / self.max_distance\<close> do so).\<close>

definition running_track :: DepthVideoStreamTrack where
  "running_track = (DepthVideoStreamTrack_init 30)\<lparr>running := True\<rparr>"

definition cached_track :: DepthVideoStreamTrack where
  "cached_track =
     running_track\<lparr>current_frame := Some \<lparr>shape = (2, 2, 3), entries = [9, 9, 9, 9, 9, 9, 7, 7, 7, 7, 7, 7]\<rparr>,
                   last_frame_time := 50, timestamp := Some 3000\<rparr>"

definition failing_render :: "DepthFrameProcessor \<Rightarrow> ArducamDepthFrame \<Rightarrow> py_exception + ndarray" where
  "failing_render proc frame = Inl (Exception ''ZeroDivisionError'' ''float division by zero'')"

text \<open>Two connected clients, the first of which joined the room \<^verbatim>\<open>default\<close>; and
  both in that room.\<close>

definition one_in_room :: SignalingServer where
  "one_in_room = \<lparr>clients = [''A'' \<mapsto> 1, ''B'' \<mapsto> 2], rooms = [''default'' \<mapsto> {''A''}]\<rparr>"

definition two_in_room :: SignalingServer where
  "two_in_room = \<lparr>clients = [''A'' \<mapsto> 1, ''B'' \<mapsto> 2], rooms = [''default'' \<mapsto> {''A'', ''B''}]\<rparr>"

text \<open>A transport library that accepts every offer, and an offer.\<close>

definition accepting_library :: negotiation where
  "accepting_library = \<lparr>setRemoteDescription = (\<lambda>d. Inr ()), createAnswer = Inr ''v=0 (answer)''\<rparr>"

definition client_offer :: "string \<rightharpoonup> pyval" where
  "client_offer = [''type'' \<mapsto> PyStr ''offer'', ''sdp'' \<mapsto> PyStr ''v=0 (offer)'']"

text \<open>The manager after one offer of the client \<^verbatim>\<open>c1\<close>, and after a second offer of
  the same client.\<close>

definition after_first_offer :: PeerManager where
  "after_first_offer = snd (handle_offer accepting_library PeerManager_init ''c1'' client_offer)"

definition after_second_offer :: PeerManager where
  "after_second_offer = snd (handle_offer accepting_library after_first_offer ''c1'' client_offer)"

section \<open>Properties of the camera wrapper\<close>

lemma request_frame_total: "\<exists>r. request_frame cam timeout_ms = Inr r"
  by (cases "request_frame_try cam timeout_ms") (simp_all add: request_frame_def try_except_def)

lemma request_frame_Some_iff:
  "request_frame cam timeout_ms = Inr (Some w) \<longleftrightarrow>
     is_started cam \<and>
     (\<exists>d c. requestFrame (sdk cam) timeout_ms = Inr (Some (DepthData d c)) \<and>
        w = \<lparr>depth_data = d, confidence_data = c, original_frame = DepthData d c\<rparr>)"
proof (cases "is_started cam")
  case False
  then show ?thesis by (simp add: request_frame_def)
next
  case started: True
  show ?thesis
  proof (cases "requestFrame (sdk cam) timeout_ms")
    case (Inl e)
    with started show ?thesis
      by (simp add: request_frame_def request_frame_try_def try_except_def)
  next
    case (Inr frame)
    show ?thesis
    proof (cases frame)
      case None
      with started Inr show ?thesis
        by (simp add: request_frame_def request_frame_try_def try_except_def)
    next
      case (Some f)
      with started Inr show ?thesis
        by (cases f) (auto simp: request_frame_def request_frame_try_def try_except_def)
    qed
  qed
qed

text \<open>
  C10.  For every timeout, \<^verbatim>\<open>request_frame\<close> returns (it never raises); it returns
  \<^verbatim>\<open>None\<close> whenever the camera has not been started and whenever the SDK call raises;
  and a result other than \<^verbatim>\<open>None\<close> is returned only when the camera is started and
  the SDK delivered a \<^verbatim>\<open>DepthData\<close> frame, which the result wraps.
\<close>

theorem C10_request_frame_none_unless_depth_frame:
  "(\<exists>r. request_frame cam timeout_ms = Inr r) \<and>
   (\<not> is_started cam \<longrightarrow> request_frame cam timeout_ms = Inr None) \<and>
   (\<forall>e. requestFrame (sdk cam) timeout_ms = Inl e \<longrightarrow> request_frame cam timeout_ms = Inr None) \<and>
   (\<forall>w. request_frame cam timeout_ms = Inr (Some w) \<longrightarrow>
      is_started cam \<and>
      (\<exists>d c. requestFrame (sdk cam) timeout_ms = Inr (Some (DepthData d c)) \<and>
         depth_data w = d \<and> confidence_data w = c \<and> original_frame w = DepthData d c))"
proof (intro conjI allI impI)
  show "\<exists>r. request_frame cam timeout_ms = Inr r"
    by (rule request_frame_total)
next
  assume "\<not> is_started cam"
  then show "request_frame cam timeout_ms = Inr None"
    by (simp add: request_frame_def)
next
  fix e
  assume "requestFrame (sdk cam) timeout_ms = Inl e"
  then show "request_frame cam timeout_ms = Inr None"
    by (simp add: request_frame_def request_frame_try_def try_except_def)
next
  fix w
  assume "request_frame cam timeout_ms = Inr (Some w)"
  then show "is_started cam"
    by (simp add: request_frame_Some_iff)
next
  fix w
  assume "request_frame cam timeout_ms = Inr (Some w)"
  then show "\<exists>d c. requestFrame (sdk cam) timeout_ms = Inr (Some (DepthData d c)) \<and>
      depth_data w = d \<and> confidence_data w = c \<and> original_frame w = DepthData d c"
    by (auto simp: request_frame_Some_iff)
qed

theorem C10_witness:
  "\<not> is_started (opened_camera sdk_streaming) \<and>
   request_frame (opened_camera sdk_streaming) 2000 = Inr None \<and>
   requestFrame (sdk (started_camera sdk_raising)) 2000 = Inl (RuntimeError ''device lost'') \<and>
   request_frame (started_camera sdk_raising) 2000 = Inr None \<and>
   request_frame (started_camera sdk_streaming) 2000 =
     Inr (Some \<lparr>depth_data = [1200, 0], confidence_data = [80, 5],
                 original_frame = DepthData [1200, 0] [80, 5]\<rparr>) \<and>
   is_started (started_camera sdk_streaming) \<and>
   requestFrame (sdk (started_camera sdk_streaming)) 2000 = Inr (Some (DepthData [1200, 0] [80, 5]))"
proof -
  have idle: "\<not> is_started (opened_camera sdk_streaming)"
    by (simp add: opened_camera_def)
  have raises: "requestFrame (sdk (started_camera sdk_raising)) 2000 = Inl (RuntimeError ''device lost'')"
    by (simp add: started_camera_def sdk_raising_def)
  have delivered: "request_frame (started_camera sdk_streaming) 2000 =
     Inr (Some \<lparr>depth_data = [1200, 0], confidence_data = [80, 5],
                 original_frame = DepthData [1200, 0] [80, 5]\<rparr>)"
    by (simp add: request_frame_def request_frame_try_def try_except_def started_camera_def
        sdk_streaming_def)
  from idle C10_request_frame_none_unless_depth_frame [of "opened_camera sdk_streaming" 2000]
  have one: "request_frame (opened_camera sdk_streaming) 2000 = Inr None"
    by blast
  from raises C10_request_frame_none_unless_depth_frame [of "started_camera sdk_raising" 2000]
  have two: "request_frame (started_camera sdk_raising) 2000 = Inr None"
    by blast
  from delivered C10_request_frame_none_unless_depth_frame [of "started_camera sdk_streaming" 2000]
  have three: "is_started (started_camera sdk_streaming) \<and>
     requestFrame (sdk (started_camera sdk_streaming)) 2000 = Inr (Some (DepthData [1200, 0] [80, 5]))"
    by fastforce
  from idle one raises two delivered three show ?thesis
    by blast
qed

section \<open>Properties of the control handler\<close>

lemma handle_command_returns:
  "\<exists>response s'. handle_command h command s = (Inr response, s')"
proof (cases "handle_command_try h command s")
  case (Pair outcome s')
  then show ?thesis
    by (cases outcome) (simp_all add: handle_command_def)
qed

lemma handle_command_on_exception:
  "handle_command_try h command s = (Inl e, s') \<Longrightarrow>
   handle_command h command s =
     (Inr (ControlResponse ''error'' (py_lower (type_name command)) (exc_str e)), s')"
  by (simp add: handle_command_def)

lemma handle_command_on_return:
  "handle_command_try h command s = (Inr response, s') \<Longrightarrow>
   handle_command h command s = (Inr response, s')"
  by (simp add: handle_command_def)

lemma py_lower_literal [simp]:
  "py_lower ''SetRangeCommand'' = ''setrangecommand''"
  "py_lower ''SetConfidenceCommand'' = ''setconfidencecommand''"
  "py_lower ''SetColormapCommand'' = ''setcolormapcommand''"
  "py_lower ''SetFpsLimitCommand'' = ''setfpslimitcommand''"
  by (simp_all add: py_lower_def is_ascii_def lower_char_def ascii_lowercase_def ascii_uppercase_def)

text \<open>For every pair of controllers, every command and every state,
  \<^verbatim>\<open>handle_command\<close> returns a response and does not raise; and when a controller
  raises inside the \<^verbatim>\<open>try\<close> block, the response has the outcome tag
  \<^verbatim>\<open>error\<close>, names the command by the lower-cased name of its class, and carries
  \<^verbatim>\<open>str(e)\<close> as its message.\<close>

lemma handle_command_catches_every_exception:
  "\<exists>response s'.
     handle_command h command s = (Inr response, s') \<and>
     (\<forall>e s''. handle_command_try h command s = (Inl e, s'') \<longrightarrow>
        s' = s'' \<and> response_type response = ''error'' \<and>
        command_type response = py_lower (type_name command) \<and>
        message response = exc_str e)"
proof (cases "handle_command_try h command s")
  case (Pair outcome s1)
  show ?thesis
  proof (cases outcome)
    case (Inl e)
    with Pair have "handle_command h command s =
        (Inr (ControlResponse ''error'' (py_lower (type_name command)) (exc_str e)), s1)"
      by (simp add: handle_command_on_exception)
    with Pair Inl show ?thesis by simp
  next
    case (Inr response)
    with Pair have "handle_command h command s = (Inr response, s1)"
      by (simp add: handle_command_on_return)
    with Pair Inr show ?thesis by simp
  qed
qed

lemma app_handler_fps_try:
  "handle_command_try control_handler (SetFpsLimitCommand v) app =
     (Inl (AttributeError ''DepthFrameProcessor'' ''set_fps_limit''), app)"
  by (simp add: control_handler_def as_stream_controller_def call_then_ack_def call_method_def
      frame_processor_object_def)

text \<open>The name the \<^verbatim>\<open>except\<close> clause answers with is never the type string of the
  message the command was built from, which is the name the \<^verbatim>\<open>ack\<close> branches answer
  with.\<close>

lemma error_name_is_never_message_type:
  "to_command m = Inr command \<Longrightarrow> py_lower (type_name command) \<noteq> message_type m"
  by (auto simp: to_command_def split: if_splits sum.splits)

text \<open>
  C1.  The application's handler is given \<^verbatim>\<open>SetFpsLimitCommand(fps=12)\<close>; its stream
  controller raises \<^verbatim>\<open>AttributeError\<close> inside the \<^verbatim>\<open>try\<close> block.  The handler
  returns a response with the outcome tag \<^verbatim>\<open>error\<close> and \<^verbatim>\<open>str(e)\<close> as message,
  but the command kind it carries is \<^verbatim>\<open>setfpslimitcommand\<close>, the lower-cased class
  name, and not the kind \<^verbatim>\<open>set_fps_limit\<close> of the command.
\<close>

theorem C1_error_response_carries_class_name_not_kind:
  "handle_command_try control_handler (SetFpsLimitCommand (PyInt 12)) started_app =
     (Inl (AttributeError ''DepthFrameProcessor'' ''set_fps_limit''), started_app) \<and>
   handle_command control_handler (SetFpsLimitCommand (PyInt 12)) started_app =
     (Inr (ControlResponse ''error'' ''setfpslimitcommand''
            (exc_str (AttributeError ''DepthFrameProcessor'' ''set_fps_limit''))), started_app) \<and>
   ''setfpslimitcommand'' \<noteq> ''set_fps_limit''"
proof -
  have raised: "handle_command_try control_handler (SetFpsLimitCommand (PyInt 12)) started_app =
     (Inl (AttributeError ''DepthFrameProcessor'' ''set_fps_limit''), started_app)"
    by (rule app_handler_fps_try)
  then have "handle_command control_handler (SetFpsLimitCommand (PyInt 12)) started_app =
     (Inr (ControlResponse ''error'' (py_lower (type_name (SetFpsLimitCommand (PyInt 12))))
            (exc_str (AttributeError ''DepthFrameProcessor'' ''set_fps_limit''))), started_app)"
    by (rule handle_command_on_exception)
  with raised show ?thesis by simp
qed

lemma app_handler_confidence_try:
  "handle_command_try control_handler (SetConfidenceCommand v) app =
     (Inl (AttributeError ''ArducamDepthCamera'' ''set_confidence_threshold''), app)"
  by (simp add: control_handler_def as_camera_controller_def call_then_ack_def call_method_def
      camera_object_def)

lemma app_handler_colormap_try:
  "handle_command_try control_handler (SetColormapCommand v) app =
     (Inl (AttributeError ''ArducamDepthCamera'' ''set_colormap''), app)"
  by (simp add: control_handler_def as_camera_controller_def call_then_ack_def call_method_def
      camera_object_def)

text \<open>What the three setters do when they are reached.\<close>

lemma set_fps_limit_clamps:
  "DepthVideoStreamTrack_set_fps_limit track (PyInt fps) = (r, track') \<Longrightarrow>
   r = Inr () \<and> fps_limit track' = max 5 (min 30 fps) \<and> 5 \<le> fps_limit track' \<and> fps_limit track' \<le> 30"
  by auto

lemma set_colormap_unknown_name:
  "COLORMAPS (py_upper name) = None \<Longrightarrow>
   DepthFrameProcessor_set_colormap proc (PyStr name) = (Inr (), proc)"
  by simp

lemma set_colormap_supported_name:
  "COLORMAPS (py_upper name) = Some cm \<Longrightarrow>
   DepthFrameProcessor_set_colormap proc (PyStr name) = (Inr (), proc\<lparr>colormap := cm\<rparr>)"
  by simp

text \<open>A handler whose stream controller is the video track applies the clamped limit
  and acknowledges.\<close>

lemma set_fps_limit_through_video_track:
  "stream_controller h = as_stream_controller video_track_object \<Longrightarrow>
   handle_command h (SetFpsLimitCommand (PyInt fps)) app =
     (Inr (ControlResponse ''ack'' ''set_fps_limit'' (''FPS limit set to '' @ string_of_int fps)),
      app\<lparr>video_track := (video_track app)\<lparr>fps_limit := max 5 (min 30 fps),
              frame_interval := 1 / real_of_int (max 5 (min 30 fps))\<rparr>\<rparr>)"
  by (simp add: handle_command_def as_stream_controller_def call_then_ack_def call_method_def
      video_track_object_def)

text \<open>A handler whose camera controller is the frame processor changes the colormap
  for a supported name and nothing for any other name.\<close>

lemma set_colormap_through_frame_processor:
  "camera_controller h = as_camera_controller frame_processor_object \<Longrightarrow>
   handle_command h (SetColormapCommand (PyStr name)) app =
     (Inr (ControlResponse ''ack'' ''set_colormap'' (''Colormap set to '' @ name)),
      case COLORMAPS (py_upper name) of
        None \<Rightarrow> app
      | Some cm \<Rightarrow> app\<lparr>frame_processor := (frame_processor app)\<lparr>colormap := cm\<rparr>\<rparr>)"
  by (simp add: handle_command_def as_camera_controller_def call_then_ack_def call_method_def
      frame_processor_object_def split: option.split)

text \<open>
  C5.  The handler of the application has the frame processor as its stream
  controller, and \<^verbatim>\<open>DepthFrameProcessor\<close> has no \<^verbatim>\<open>set_fps_limit\<close>: dispatching
  \<^verbatim>\<open>SetFpsLimitCommand(fps=1)\<close> answers \<^verbatim>\<open>error\<close>, not \<^verbatim>\<open>ack\<close>, and the limit of
  the video track stays 30 instead of becoming 5.
\<close>

theorem C5_app_handler_does_not_apply_fps_limit:
  "handle_command control_handler (SetFpsLimitCommand (PyInt 1)) started_app =
     (Inr (ControlResponse ''error'' ''setfpslimitcommand''
            (exc_str (AttributeError ''DepthFrameProcessor'' ''set_fps_limit''))), started_app) \<and>
   fps_limit (video_track started_app) = 30"
proof -
  have "handle_command control_handler (SetFpsLimitCommand (PyInt 1)) started_app =
     (Inr (ControlResponse ''error'' (py_lower (type_name (SetFpsLimitCommand (PyInt 1))))
            (exc_str (AttributeError ''DepthFrameProcessor'' ''set_fps_limit''))), started_app)"
    by (rule handle_command_on_exception) (rule app_handler_fps_try)
  moreover have "fps_limit (video_track started_app) = 30"
    by (simp add: started_app_def DepthVideoStreamTrack_init_def)
  ultimately show ?thesis by simp
qed

text \<open>In the \<^verbatim>\<open>ack\<close> outcome the response names the command by the type string of
  the message it was built from.\<close>

lemma ack_only_from_try:
  "handle_command h command s = (Inr response, s') \<Longrightarrow> response_type response = ''ack'' \<Longrightarrow>
   handle_command_try h command s = (Inr response, s')"
proof (cases "handle_command_try h command s")
  case (Pair outcome s1)
  assume "handle_command h command s = (Inr response, s')" and "response_type response = ''ack''"
  with Pair show ?thesis
    by (cases outcome) (auto simp: handle_command_def)
qed

lemma call_then_ack_kind:
  "call_then_ack meth v kind label s = (Inr response, s') \<Longrightarrow> command_type response = kind"
  by (auto simp: call_then_ack_def split: prod.splits sum.splits)

lemma ack_command_type_is_message_type:
  assumes "to_command m = Inr command"
    and "handle_command h command s = (Inr response, s')"
    and "response_type response = ''ack''"
  shows "command_type response = message_type m"
proof -
  from assms(2,3) have tried: "handle_command_try h command s = (Inr response, s')"
    by (rule ack_only_from_try)
  from assms(1) consider
      (range) v where "message_type m = ''set_range''" "command = SetRangeCommand v"
    | (confidence) v where "message_type m = ''set_confidence_threshold''" "command = SetConfidenceCommand v"
    | (colormap) v where "message_type m = ''set_colormap''" "command = SetColormapCommand v"
    | (fps) v where "message_type m = ''set_fps_limit''" "command = SetFpsLimitCommand v"
    by (auto simp: to_command_def split: if_splits sum.splits)
  then show ?thesis
  proof cases
    case range
    with tried show ?thesis by (auto dest: call_then_ack_kind)
  next
    case confidence
    with tried show ?thesis by (auto dest: call_then_ack_kind)
  next
    case colormap
    with tried show ?thesis by (auto dest: call_then_ack_kind)
  next
    case fps
    with tried show ?thesis by (auto dest: call_then_ack_kind)
  qed
qed

text \<open>
  C6.  The well-formed message
  \<^verbatim>\<open>{type: set_confidence_threshold, payload: {threshold: 50}}\<close> becomes a
  \<^verbatim>\<open>SetConfidenceCommand\<close>; the application's handler answers it with outcome
  \<^verbatim>\<open>error\<close>, and the \<^verbatim>\<open>command_type\<close> of that response is
  \<^verbatim>\<open>setconfidencecommand\<close>, which is not the type string of the message.
\<close>

theorem C6_error_response_command_type_differs:
  "to_command \<lparr>message_type = ''set_confidence_threshold'', payload = [''threshold'' \<mapsto> PyInt 50]\<rparr> =
     Inr (SetConfidenceCommand (PyInt 50)) \<and>
   handle_command control_handler (SetConfidenceCommand (PyInt 50)) started_app =
     (Inr (ControlResponse ''error'' ''setconfidencecommand''
            (exc_str (AttributeError ''ArducamDepthCamera'' ''set_confidence_threshold''))), started_app) \<and>
   ''setconfidencecommand'' \<noteq> ''set_confidence_threshold''"
proof -
  have "to_command \<lparr>message_type = ''set_confidence_threshold'', payload = [''threshold'' \<mapsto> PyInt 50]\<rparr> =
     Inr (SetConfidenceCommand (PyInt 50))"
    by (simp add: to_command_def payload_item_def)
  moreover have "handle_command control_handler (SetConfidenceCommand (PyInt 50)) started_app =
     (Inr (ControlResponse ''error'' (py_lower (type_name (SetConfidenceCommand (PyInt 50))))
            (exc_str (AttributeError ''ArducamDepthCamera'' ''set_confidence_threshold''))), started_app)"
    by (rule handle_command_on_exception) (rule app_handler_confidence_try)
  ultimately show ?thesis by simp
qed

text \<open>
  C9.  \<^verbatim>\<open>JET\<close> is a supported colormap, yet dispatching
  \<^verbatim>\<open>SetColormapCommand(colormap='JET')\<close> through the application's handler leaves the
  processor's colormap at \<^verbatim>\<open>COLORMAP_RAINBOW\<close>: the camera controller of that handler
  is the camera, \<^verbatim>\<open>ArducamDepthCamera\<close> has no \<^verbatim>\<open>set_colormap\<close>, and the answer is
  \<^verbatim>\<open>error\<close>.
\<close>

theorem C9_app_handler_does_not_set_supported_colormap:
  "COLORMAPS (py_upper ''JET'') = Some COLORMAP_JET \<and>
   colormap (frame_processor started_app) = COLORMAP_RAINBOW \<and>
   handle_command control_handler (SetColormapCommand (PyStr ''JET'')) started_app =
     (Inr (ControlResponse ''error'' ''setcolormapcommand''
            (exc_str (AttributeError ''ArducamDepthCamera'' ''set_colormap''))), started_app)"
proof -
  have "COLORMAPS (py_upper ''JET'') = Some COLORMAP_JET"
    by (simp add: COLORMAPS_def py_upper_def is_ascii_def upper_char_def ascii_lowercase_def
        ascii_uppercase_def)
  moreover have "colormap (frame_processor started_app) = COLORMAP_RAINBOW"
    by (simp add: started_app_def DepthFrameProcessor_init_def)
  moreover have "handle_command control_handler (SetColormapCommand (PyStr ''JET'')) started_app =
     (Inr (ControlResponse ''error'' (py_lower (type_name (SetColormapCommand (PyStr ''JET''))))
            (exc_str (AttributeError ''ArducamDepthCamera'' ''set_colormap''))), started_app)"
    by (rule handle_command_on_exception) (rule app_handler_colormap_try)
  ultimately show ?thesis by simp
qed

section \<open>Properties of the video track\<close>

lemma release_frame_returns: "release_frame cam frame = Inr ()"
  by (cases "releaseFrame (sdk cam) (original_frame frame)") (simp_all add: release_frame_def try_except_def)

lemma np_zeros_nonneg: "0 \<le> h \<Longrightarrow> 0 \<le> w \<Longrightarrow> np_zeros h w = Inr (black_image (nat h) (nat w))"
  by (simp add: np_zeros_def)

lemma np_zeros_default: "np_zeros 180 240 = Inr (black_image 180 240)"
  by (simp add: np_zeros_def)

text \<open>The image chosen at the end of \<^verbatim>\<open>recv\<close> is the cached frame when one exists,
  and otherwise a black image of the camera's resolution or of 180 by 240.\<close>

lemma fallback_frame_data_cached:
  "current_frame track = Some cached \<Longrightarrow> fallback_frame_data cam track = Inr cached"
  by (simp add: fallback_frame_data_def)

lemma fallback_frame_data_known_resolution:
  "current_frame track = None \<Longrightarrow> info cam = Some i \<Longrightarrow> 0 \<le> height i \<Longrightarrow> 0 \<le> width i \<Longrightarrow>
   fallback_frame_data cam track = Inr (black_image (nat (height i)) (nat (width i)))"
  by (simp add: fallback_frame_data_def get_camera_info_def np_zeros_nonneg try_except_def)

lemma fallback_frame_data_no_resolution:
  "current_frame track = None \<Longrightarrow> info cam = None \<Longrightarrow>
   fallback_frame_data cam track = Inr (black_image 180 240)"
  by (simp add: fallback_frame_data_def get_camera_info_def np_zeros_default try_except_def)

lemma fallback_frame_data_bad_resolution:
  "current_frame track = None \<Longrightarrow> info cam = Some i \<Longrightarrow> height i < 0 \<or> width i < 0 \<Longrightarrow>
   fallback_frame_data cam track = Inr (black_image 180 240)"
  by (auto simp: fallback_frame_data_def get_camera_info_def np_zeros_default try_except_def np_zeros_def)

text \<open>\<^verbatim>\<open>DepthFrameProcessor.process_frame\<close> catches every exception of the rendering
  pipeline and returns a black 480 by 640 image in its place, so a rendering error never
  reaches the \<^verbatim>\<open>except\<close> clause of \<^verbatim>\<open>recv\<close>.\<close>

lemma process_frame_never_raises: "\<exists>img. process_frame render proc frame = Inr img"
  by (cases "render proc frame") (simp_all add: process_frame_def try_except_def np_zeros_def)

lemma process_frame_on_render_error:
  "render proc frame = Inl e \<Longrightarrow> process_frame render proc frame = Inr (black_image 480 640)"
  by (simp add: process_frame_def try_except_def np_zeros_def)

text \<open>Every path through \<^verbatim>\<open>recv\<close> ends in \<^verbatim>\<open>from_ndarray\<close> with the integer time
  stamp as format, outside every \<^verbatim>\<open>try\<close> or followed by the end of the method: no
  call of \<^verbatim>\<open>recv\<close> returns a frame.\<close>

lemma next_timestamp_cases: "\<exists>pts stamped. next_timestamp track = (pts, stamped)"
  by (cases "next_timestamp track") simp

lemma recv_fallback_raises: "\<exists>e track'. recv_fallback cam track = (Inl e, track')"
proof -
  obtain pts stamped where "next_timestamp track = (pts, stamped)"
    using next_timestamp_cases by blast
  then show ?thesis
    by (cases "fallback_frame_data cam stamped") (simp_all add: recv_fallback_def)
qed

lemma recv_try_raises: "\<exists>e track'. recv_try proc cam now frame track = (Inl e, track')"
proof (cases "proc frame")
  case (Inl e)
  then show ?thesis by (simp add: recv_try_def)
next
  case (Inr processed)
  obtain pts stamped where
    "next_timestamp (track\<lparr>current_frame := Some processed, last_frame_time := now\<rparr>) = (pts, stamped)"
    using next_timestamp_cases by blast
  with Inr show ?thesis
    by (simp add: recv_try_def release_frame_returns)
qed

lemma recv_always_raises: "\<exists>e track'. recv proc cam ahead now track = (Inl e, track')"
proof -
  obtain pts stamped where stamp: "next_timestamp track = (pts, stamped)"
    using next_timestamp_cases by blast
  show ?thesis
  proof (cases "running track")
    case False
    with stamp show ?thesis by (simp add: recv_def np_zeros_def)
  next
    case is_running: True
    show ?thesis
    proof (cases "ahead \<and> current_frame track \<noteq> None")
      case True
      with is_running stamp show ?thesis by (simp add: recv_def)
    next
      case not_limited: False
      obtain r where requested: "request_frame cam 2000 = Inr r"
        using request_frame_total by blast
      show ?thesis
      proof (cases r)
        case None
        with is_running not_limited requested recv_fallback_raises [of cam track] show ?thesis
          by (auto simp: recv_def)
      next
        case (Some frame)
        obtain e track' where "recv_try proc cam now frame track = (Inl e, track')"
          using recv_try_raises by blast
        with is_running not_limited requested Some recv_fallback_raises [of cam track'] show ?thesis
          by (auto simp: recv_def release_frame_returns)
      qed
    qed
  qed
qed

text \<open>
  C2.  A running track without a cached frame, the camera started, the frame request
  timing out: \<^verbatim>\<open>recv\<close> chooses the black image of the camera's resolution and then
  raises \<^verbatim>\<open>ValueError\<close> from \<^verbatim>\<open>VideoFrame.from_ndarray\<close>, whose format argument is
  the time stamp 0; no frame is returned.  And a track with a cached frame, the camera
  delivering a frame, the rendering pipeline raising: \<^verbatim>\<open>process_frame\<close> returns a black
  480 by 640 image, which replaces the cached frame, and \<^verbatim>\<open>recv\<close> raises as before.
\<close>

theorem C2_recv_raises_instead_of_returning_frame:
  "recv (process_frame failing_render (DepthFrameProcessor_init 4000))
        (started_camera sdk_timing_out) False 100 running_track =
     (Inl (unsupported_format ''0''), running_track\<lparr>timestamp := Some 0\<rparr>) \<and>
   recv (process_frame failing_render (DepthFrameProcessor_init 4000))
        (started_camera sdk_streaming) False 100 cached_track =
     (Inl (unsupported_format ''9000''),
      cached_track\<lparr>current_frame := Some (black_image 480 640), last_frame_time := 100,
                   timestamp := Some 9000\<rparr>)"
proof -
  have timeout: "request_frame (started_camera sdk_timing_out) 2000 = Inr None"
    by (simp add: request_frame_def request_frame_try_def try_except_def started_camera_def
        sdk_timing_out_def)
  have image: "fallback_frame_data (started_camera sdk_timing_out) (running_track\<lparr>timestamp := Some 0\<rparr>) =
      Inr (black_image 180 240)"
    by (simp add: fallback_frame_data_def get_camera_info_def started_camera_def np_zeros_def
        try_except_def running_track_def DepthVideoStreamTrack_init_def)
  have first: "recv (process_frame failing_render (DepthFrameProcessor_init 4000))
        (started_camera sdk_timing_out) False 100 running_track =
     (Inl (unsupported_format ''0''), running_track\<lparr>timestamp := Some 0\<rparr>)"
    using timeout image
    by (simp add: recv_def recv_fallback_def next_timestamp_def running_track_def
        DepthVideoStreamTrack_init_def string_of_int_def digit_char_def)
  have delivered: "request_frame (started_camera sdk_streaming) 2000 =
     Inr (Some \<lparr>depth_data = [1200, 0], confidence_data = [80, 5],
                 original_frame = DepthData [1200, 0] [80, 5]\<rparr>)"
    by (simp add: request_frame_def request_frame_try_def try_except_def started_camera_def
        sdk_streaming_def)
  have rendered: "process_frame failing_render (DepthFrameProcessor_init 4000)
      \<lparr>depth_data = [1200, 0], confidence_data = [80, 5],
       original_frame = DepthData [1200, 0] [80, 5]\<rparr> = Inr (black_image 480 640)"
    by (rule process_frame_on_render_error) (simp add: failing_render_def)
  have second: "recv (process_frame failing_render (DepthFrameProcessor_init 4000))
        (started_camera sdk_streaming) False 100 cached_track =
     (Inl (unsupported_format ''9000''),
      cached_track\<lparr>current_frame := Some (black_image 480 640), last_frame_time := 100,
                   timestamp := Some 9000\<rparr>)"
    using delivered rendered
    by (simp add: recv_def recv_try_def recv_fallback_def fallback_frame_data_def
        release_frame_returns next_timestamp_def cached_track_def running_track_def
        DepthVideoStreamTrack_init_def string_of_int_def digit_char_def)
  from first second show ?thesis by simp
qed

section \<open>Properties of the signaling server\<close>

lemma broadcast_to_room_iff:
  "(client_id, m) \<in> broadcast_to_room srv room_id msg exclude_client \<longleftrightarrow>
     m = msg \<and> Some client_id \<noteq> exclude_client \<and>
     (\<exists>members. rooms srv room_id = Some members \<and> client_id \<in> members) \<and>
     (\<exists>websocket. clients srv client_id = Some websocket)"
  by (cases "rooms srv room_id") (auto simp: broadcast_to_room_def)

lemma broadcast_to_missing_room:
  "rooms srv room_id = None \<Longrightarrow> broadcast_to_room srv room_id msg exclude_client = {}"
  by (simp add: broadcast_to_room_def)

text \<open>
  C7.  A pair of a client and a message is among the sends of
  \<^verbatim>\<open>broadcast_to_room\<close> exactly when the message is the one broadcast, the client is
  not the excluded sender, the client is a member of the room, and the client is
  registered; and nothing is sent when the room does not exist.
\<close>

theorem C7_broadcast_only_to_registered_members:
  "(\<forall>client_id m.
      (client_id, m) \<in> broadcast_to_room srv room_id msg exclude_client \<longrightarrow>
        m = msg \<and> Some client_id \<noteq> exclude_client \<and>
        (\<exists>members. rooms srv room_id = Some members \<and> client_id \<in> members) \<and>
        (\<exists>websocket. clients srv client_id = Some websocket)) \<and>
   (rooms srv room_id = None \<longrightarrow> broadcast_to_room srv room_id msg exclude_client = {})"
  by (simp add: broadcast_to_room_iff broadcast_to_missing_room)

lemma two_in_room_broadcast:
  "broadcast_to_room two_in_room ''default'' msg (Some ''A'') = {(''B'', msg)}"
  by (auto simp: broadcast_to_room_def two_in_room_def)

theorem C7_witness:
  "(''B'', peer_joined ''A'') \<in> broadcast_to_room two_in_room ''default'' (peer_joined ''A'') (Some ''A'') \<and>
   Some ''B'' \<noteq> Some ''A'' \<and>
   rooms two_in_room ''default'' = Some {''A'', ''B''} \<and>
   clients two_in_room ''B'' = Some 2 \<and>
   rooms two_in_room ''lobby'' = None \<and>
   broadcast_to_room two_in_room ''lobby'' (peer_joined ''A'') (Some ''A'') = {}"
proof -
  have sent: "(''B'', peer_joined ''A'') \<in>
      broadcast_to_room two_in_room ''default'' (peer_joined ''A'') (Some ''A'')"
    by (simp add: two_in_room_broadcast)
  have absent: "rooms two_in_room ''lobby'' = None"
    by (simp add: two_in_room_def)
  from sent C7_broadcast_only_to_registered_members
      [of two_in_room "''default''" "peer_joined ''A''" "Some ''A''"]
  have "Some ''B'' \<noteq> Some ''A'' \<and>
      (\<exists>members. rooms two_in_room ''default'' = Some members \<and> ''B'' \<in> members) \<and>
      (\<exists>websocket. clients two_in_room ''B'' = Some websocket)"
    by blast
  moreover from absent C7_broadcast_only_to_registered_members
      [of two_in_room "''lobby''" "peer_joined ''A''" "Some ''A''"]
  have "broadcast_to_room two_in_room ''lobby'' (peer_joined ''A'') (Some ''A'') = {}"
    by blast
  ultimately show ?thesis
    using sent absent by (simp add: two_in_room_def)
qed

text \<open>\<^verbatim>\<open>join_room\<close>, \<^verbatim>\<open>leave_room\<close> and the registration of a client keep every
  room of the registry inhabited.\<close>

lemma join_room_keeps_rooms_inhabited:
  "rooms_have_members srv \<Longrightarrow> rooms_have_members (fst (join_room srv client_id room_id))"
  by (auto simp: rooms_have_members_def join_room_def Let_def split: if_splits)

lemma leave_room_keeps_rooms_inhabited:
  "rooms_have_members srv \<Longrightarrow> rooms_have_members (fst (leave_room srv client_id room_id))"
  by (cases "rooms srv room_id")
     (auto simp: rooms_have_members_def leave_room_def Let_def split: if_splits)

lemma register_client_keeps_rooms_inhabited:
  "rooms_have_members srv \<Longrightarrow> rooms_have_members (register_client srv client_id websocket)"
  by (simp add: rooms_have_members_def register_client_def)

lemma join_room_creates_room:
  "\<exists>members. rooms (fst (join_room srv client_id room_id)) room_id = Some members \<and> client_id \<in> members"
  by (simp add: join_room_def Let_def)

lemma leave_room_deletes_empty_room:
  "rooms srv room_id = Some {client_id} \<Longrightarrow> rooms (fst (leave_room srv client_id room_id)) room_id = None"
  by (simp add: leave_room_def Let_def)

text \<open>
  C3.  A client connects, joins the room \<^verbatim>\<open>default\<close> and disconnects.  The
  \<^verbatim>\<open>finally\<close> clause of \<^verbatim>\<open>handle_connection\<close> discards the client from the
  member set and keeps the room: the registry then holds \<^verbatim>\<open>default\<close> with no
  member.  Had the client left with \<^verbatim>\<open>leave_room\<close>, the room would be gone.
\<close>

theorem C3_disconnect_keeps_empty_room:
  "rooms (signaling_run SignalingServer_init
            [Connect ''A'' 1, Join ''A'' ''default'', Disconnect ''A'']) ''default'' = Some {} \<and>
   rooms (signaling_run SignalingServer_init
            [Connect ''A'' 1, Join ''A'' ''default'', Leave ''A'' ''default'']) ''default'' = None"
  by (simp add: signaling_run_def SignalingServer_init_def register_client_def join_room_def
      leave_room_def disconnect_client_def Let_def)

text \<open>
  C8, as stated, fails: \<^verbatim>\<open>B\<close> is not a member of \<^verbatim>\<open>default\<close>, and its
  \<^verbatim>\<open>leave\<close> sends \<^verbatim>\<open>peer_left\<close> to the member \<^verbatim>\<open>A\<close>.
\<close>

theorem C8_counterexample:
  "rooms one_in_room ''default'' = Some {''A''} \<and> ''B'' \<notin> {''A''} \<and>
   snd (leave_room one_in_room ''B'' ''default'') = {(''A'', peer_left ''B'')} \<and>
   snd (leave_room one_in_room ''B'' ''default'') \<noteq> {}"
proof -
  have "snd (leave_room one_in_room ''B'' ''default'') = {(''A'', peer_left ''B'')}"
    by (auto simp: leave_room_def one_in_room_def broadcast_to_room_def Let_def)
  then show ?thesis
    by (simp add: one_in_room_def)
qed

text \<open>
  C8, amended.  When the client is not a member of the room, and the room is absent or
  has a member, \<^verbatim>\<open>leave_room\<close> leaves the server's state (rooms and clients)
  unchanged; it sends nothing when the room does not exist, and when the room exists it
  sends what \<^verbatim>\<open>broadcast_to_room\<close> sends for \<^verbatim>\<open>peer_left\<close>: one notification to
  every registered member of the room.
\<close>

theorem C8_leave_by_non_member:
  assumes "\<forall>members. rooms srv room_id = Some members \<longrightarrow> client_id \<notin> members \<and> members \<noteq> {}"
  shows "fst (leave_room srv client_id room_id) = srv \<and>
         snd (leave_room srv client_id room_id) =
           broadcast_to_room srv room_id (peer_left client_id) (Some client_id) \<and>
         (rooms srv room_id = None \<longrightarrow> snd (leave_room srv client_id room_id) = {})"
proof (cases "rooms srv room_id")
  case None
  then show ?thesis
    by (simp add: leave_room_def broadcast_to_room_def)
next
  case (Some members)
  with assms have outside: "client_id \<notin> members" and inhabited: "members \<noteq> {}"
    by auto
  from outside have same: "members - {client_id} = members"
    by auto
  from Some have "(rooms srv)(room_id \<mapsto> members) = rooms srv"
    by (simp add: map_upd_triv)
  then have "srv\<lparr>rooms := (rooms srv)(room_id \<mapsto> members)\<rparr> = srv"
    by simp
  with Some same inhabited show ?thesis
    by (simp add: leave_room_def Let_def)
qed

theorem C8_witness:
  "rooms one_in_room ''default'' = Some {''A''} \<and> ''B'' \<notin> {''A''} \<and>
   fst (leave_room one_in_room ''B'' ''default'') = one_in_room \<and>
   snd (leave_room one_in_room ''B'' ''default'') =
     broadcast_to_room one_in_room ''default'' (peer_left ''B'') (Some ''B'') \<and>
   rooms one_in_room ''lobby'' = None \<and>
   fst (leave_room one_in_room ''B'' ''lobby'') = one_in_room \<and>
   snd (leave_room one_in_room ''B'' ''lobby'') = {}"
proof -
  have present: "rooms one_in_room ''default'' = Some {''A''}"
    and absent: "rooms one_in_room ''lobby'' = None"
    by (simp_all add: one_in_room_def)
  from present have first: "\<forall>members. rooms one_in_room ''default'' = Some members \<longrightarrow>
      ''B'' \<notin> members \<and> members \<noteq> {}"
    by simp
  from absent have second: "\<forall>members. rooms one_in_room ''lobby'' = Some members \<longrightarrow>
      ''B'' \<notin> members \<and> members \<noteq> {}"
    by simp
  have outside: "''B'' \<notin> {''A''}"
    by simp
  from C8_leave_by_non_member [OF first] C8_leave_by_non_member [OF second] present absent outside
  show ?thesis
    by blast
qed

section \<open>Properties of the peer manager\<close>

text \<open>\<^verbatim>\<open>handle_offer\<close> appends one connection and leaves every connection that existed
  before as it was: none of them is closed.\<close>

lemma update_connection_others:
  "i \<noteq> pc \<Longrightarrow> connections (update_connection pm pc f) ! i = connections pm ! i"
  by (simp add: update_connection_def)

lemma update_connection_length:
  "length (connections (update_connection pm pc f)) = length (connections pm)"
  by (simp add: update_connection_def)

lemma update_connection_peers: "peers (update_connection pm pc f) = peers pm"
  by (simp add: update_connection_def)

lemma handle_offer_keeps_prior_connections:
  assumes "i < length (connections pm)"
  shows "connections (snd (handle_offer lib pm sender_id offer)) ! i = connections pm ! i"
proof -
  from assms have "i \<noteq> length (connections pm)" by simp
  with assms show ?thesis
    by (auto simp: handle_offer_def create_peer_connection_def Let_def update_connection_others
        nth_append split: sum.splits)
qed

lemma handle_offer_stores_new_connection:
  "peers (snd (handle_offer lib pm sender_id offer)) sender_id = Some (length (connections pm))"
  by (auto simp: handle_offer_def create_peer_connection_def Let_def update_connection_peers
      split: sum.splits)

lemma after_first_offer_eval:
  "after_first_offer =
     \<lparr>peers = [''c1'' \<mapsto> 0],
      connections = [\<lparr>isClosed = False, senders = 1,
                       remoteDescription = Some (Some (PyStr ''offer''), Some (PyStr ''v=0 (offer)'')),
                       localDescription = Some ''v=0 (answer)'', dataChannels = [''controls'']\<rparr>]\<rparr>"
  by (simp add: after_first_offer_def handle_offer_def create_peer_connection_def Let_def
      update_connection_def accepting_library_def client_offer_def PeerManager_init_def
      RTCPeerConnection_init_def)

lemma after_second_offer_eval:
  "after_second_offer =
     \<lparr>peers = [''c1'' \<mapsto> 1],
      connections = [\<lparr>isClosed = False, senders = 1,
                       remoteDescription = Some (Some (PyStr ''offer''), Some (PyStr ''v=0 (offer)'')),
                       localDescription = Some ''v=0 (answer)'', dataChannels = [''controls'']\<rparr>,
                     \<lparr>isClosed = False, senders = 1,
                       remoteDescription = Some (Some (PyStr ''offer''), Some (PyStr ''v=0 (offer)'')),
                       localDescription = Some ''v=0 (answer)'', dataChannels = [''controls'']\<rparr>]\<rparr>"
  by (simp add: after_second_offer_def after_first_offer_eval handle_offer_def
      create_peer_connection_def Let_def update_connection_def accepting_library_def
      client_offer_def RTCPeerConnection_init_def)

text \<open>
  C4.  The client \<^verbatim>\<open>c1\<close> sends an offer, then a second one.  After the second
  \<^verbatim>\<open>handle_offer\<close> the manager refers to the second connection only, and the first
  connection is still open: \<^verbatim>\<open>close\<close> was never called on it.
  \<^verbatim>\<open>PeerManager.stop\<close> closes the second connection and not the first.
\<close>

theorem C4_second_offer_leaves_prior_connection_open:
  "peers after_first_offer ''c1'' = Some 0 \<and>
   peers after_second_offer ''c1'' = Some 1 \<and>
   length (connections after_second_offer) = 2 \<and>
   \<not> isClosed (connections after_second_offer ! 0) \<and>
   isClosed (connections (stop_peers after_second_offer) ! 1) \<and>
   \<not> isClosed (connections (stop_peers after_second_offer) ! 0)"
proof -
  have "ran [''c1'' \<mapsto> (1::nat)] = {1}"
    by simp
  then have "connections (stop_peers after_second_offer) =
      [connections after_second_offer ! 0, pc_close (connections after_second_offer ! 1)]"
    by (simp add: stop_peers_def after_second_offer_eval upt_rec)
  then show ?thesis
    by (simp add: after_first_offer_eval after_second_offer_eval pc_close_def)
qed

end
